theory Spec2Isabelle
  imports
    Main
    "HOL-Library.Multiset"
    "HOL-Library.Char_ord"
    "HOL-Library.List_Lexorder"
    "HOL-Library.Product_Lexorder"
begin

section \<open>The chat table of \<^verbatim>\<open>chat_history.db\<close>\<close>

text \<open>
  \<^verbatim>\<open>app.py\<close> keeps its turns in one SQLite table,
  \<^verbatim>\<open>chat(id INTEGER PRIMARY KEY AUTOINCREMENT, session_id TEXT, role TEXT,
  content TEXT, timestamp DATETIME DEFAULT CURRENT_TIMESTAMP)\<close>.
  A row is a record; the table is the list of its rows in insertion (rowid) order.
  Text is \<^typ>\<open>string\<close>. A timestamp is the text \<^verbatim>\<open>YYYY-MM-DD HH:MM:SS\<close> that
  \<^verbatim>\<open>CURRENT_TIMESTAMP\<close> yields; SQLite compares such text bytewise, which is the
  lexicographic order on \<^typ>\<open>string\<close>.
\<close>

record chat_row =
  row_id :: nat
  session_id :: string
  role :: string
  content :: string
  timestamp :: string

type_synonym chat_table = "chat_row list"

text \<open>What \<^verbatim>\<open>SELECT role, content, timestamp\<close> returns for one row: a 3-tuple.\<close>

type_synonym turn = "string \<times> string \<times> string"

definition turn_role :: "turn \<Rightarrow> string" where
  "turn_role row = fst row"

definition turn_content :: "turn \<Rightarrow> string" where
  "turn_content row = fst (snd row)"

definition turn_timestamp :: "turn \<Rightarrow> string" where
  "turn_timestamp row = snd (snd row)"

text \<open>
  \<^verbatim>\<open>AUTOINCREMENT\<close>: the new rowid is one more than the largest rowid the table has
  held. The program never deletes a row, so that is the largest rowid in the table.
  (The rowid limit of \<open>2^63 - 1\<close> is out of reach of a program that adds two rows per
  submission; ids are natural numbers here.)
\<close>

definition next_id :: "chat_table \<Rightarrow> nat" where
  "next_id tbl = Suc (fold max (map row_id tbl) 0)"

text \<open>
  \<^verbatim>\<open>save_message(session_id, role, content)\<close>: one \<^verbatim>\<open>INSERT\<close>, then commit. The store
  assigns the id and the timestamp; \<open>now\<close> is the value of \<^verbatim>\<open>CURRENT_TIMESTAMP\<close> at the
  insert, an input from the environment.
\<close>

definition save_message :: "string \<Rightarrow> string \<Rightarrow> string \<Rightarrow> string \<Rightarrow> chat_table \<Rightarrow> chat_table" where
  "save_message now sid r c tbl =
     tbl @ [\<lparr>row_id = next_id tbl, session_id = sid, role = r, content = c, timestamp = now\<rparr>]"

text \<open>The rows \<^verbatim>\<open>WHERE session_id = ?\<close> keeps, projected to the selected columns.\<close>

definition session_turns :: "chat_table \<Rightarrow> string \<Rightarrow> turn list" where
  "session_turns tbl sid =
     map (\<lambda>r. (role r, content r, timestamp r)) (filter (\<lambda>r. session_id r = sid) tbl)"

text \<open>
  \<^verbatim>\<open>load_chat_history(session_id)\<close> runs
  \<^verbatim>\<open>SELECT role, content, timestamp FROM chat WHERE session_id = ? ORDER BY timestamp\<close>
  and returns \<^verbatim>\<open>cursor.fetchall()\<close>. The query names \<open>timestamp\<close> as its only sort
  key. What the query text alone promises is the relation \<open>load_chat_history\<close>: the
  result is a rearrangement of the session's rows that ascends in \<open>timestamp\<close>. What is
  proved for every list in that relation holds whatever the engine does with rows of
  equal timestamp.
\<close>

definition load_chat_history :: "chat_table \<Rightarrow> string \<Rightarrow> turn list \<Rightarrow> bool" where
  "load_chat_history tbl sid chat_data \<longleftrightarrow>
     mset chat_data = mset (session_turns tbl sid) \<and> sorted (map turn_timestamp chat_data)"

text \<open>
  The list the call returns in the program: \<^verbatim>\<open>sqlite3\<close> reads the rows of \<open>chat\<close> in
  rowid order, keeps those of the session, and sorts them by \<open>timestamp\<close> with rows of
  equal timestamp left in the order read. \<open>sort_key\<close> is that sort (insertion of each
  row before the first row that is not earlier).
\<close>

definition fetchall :: "chat_table \<Rightarrow> string \<Rightarrow> turn list" where
  "fetchall tbl sid =
     map (\<lambda>r. (role r, content r, timestamp r))
       (sort_key timestamp (filter (\<lambda>r. session_id r = sid) tbl))"

text \<open>A run of \<open>save_message\<close> calls for one session, each with its clock reading.\<close>

definition save_all :: "string \<Rightarrow> turn list \<Rightarrow> chat_table \<Rightarrow> chat_table" where
  "save_all sid calls tbl =
     fold (\<lambda>call. save_message (turn_timestamp call) sid (turn_role call) (turn_content call)) calls tbl"

text \<open>
  The order the specification's data model describes: by timestamp, ties broken by id.
  It is stated from the specification's words, to be compared with \<open>fetchall\<close>.
\<close>

definition by_timestamp_then_id :: "chat_table \<Rightarrow> string \<Rightarrow> turn list" where
  "by_timestamp_then_id tbl sid =
     map (\<lambda>r. (role r, content r, timestamp r))
       (sort_key (\<lambda>r. (timestamp r, row_id r)) (filter (\<lambda>r. session_id r = sid) tbl))"

section \<open>Prompt assembly and the message history of the chain\<close>

text \<open>A prompt message: its role and its text.\<close>

type_synonym message = "string \<times> string"

text \<open>The text of the \<open>system\<close> entry of \<^verbatim>\<open>chat_prompt\<close>, character for character.\<close>

definition system_instruction :: string where
  "system_instruction =
     ''You are an AI assistant specialized in Data Science tutoring. \<newline>'' @
     ''                      You will only answer questions related to Data Science. \<newline>'' @
     ''                      Provide code examples with proper syntax highlighting when relevant.\<newline>'' @
     ''                      If asked anything outside this topic, politely decline and request a Data Science-related question.\<newline>'' @
     ''                   ''"

text \<open>
  \<^verbatim>\<open>chat_prompt = ChatPromptTemplate(messages=[('system', ...),
  MessagesPlaceholder(variable_name="history", optional=True), ('human', '{prompt}')])\<close>.
  Formatting the template puts the system text first (it has no placeholder), the
  messages bound to \<open>history\<close> next, as they are, and the value of \<open>prompt\<close> as the
  text of the closing human message.
\<close>

definition chat_prompt :: "message list \<Rightarrow> string \<Rightarrow> message list" where
  "chat_prompt history prompt =
     [(''system'', system_instruction)] @ history @ [(''human'', prompt)]"

text \<open>
  \<^verbatim>\<open>SQLChatMessageHistory(session, "sqlite:///chat_history.db")\<close> is the history the chain
  reads and writes. It is LangChain's class, not code of \<^verbatim>\<open>app.py\<close>: it keeps its
  messages in a table of its own in the same database file, and \<^verbatim>\<open>app.py\<close> hands it
  neither the \<open>chat\<close> table nor \<open>load_chat_history\<close>. Its state is modelled as the list of
  the (session, message) pairs added so far; the messages of a session are read in the
  order they were added.
\<close>

type_synonym message_store = "(string \<times> message) list"

definition history_messages :: "message_store \<Rightarrow> string \<Rightarrow> message list" where
  "history_messages store sid = map snd (filter (\<lambda>entry. fst entry = sid) store)"

definition add_messages :: "string \<Rightarrow> message list \<Rightarrow> message_store \<Rightarrow> message_store" where
  "add_messages sid msgs store = store @ map (Pair sid) msgs"

section \<open>The state of the application\<close>

text \<open>
  What one run of the script reads and leaves behind: the \<open>chat\<close> table, the chain's
  message history, \<^verbatim>\<open>st.session_state.session_id\<close> and
  \<^verbatim>\<open>st.session_state.messages\<close> (as it is once lines 167-168 have set it), and \<open>sent\<close>,
  the prompts handed to the completion endpoint so far, which records the network calls.
\<close>

record world =
  chat_tbl :: chat_table
  lc_store :: message_store
  sent :: "message list list"
  ss_session_id :: string
  ss_messages :: "turn list"

text \<open>
  The completion call either returns text or raises. The endpoint is an input of the
  model: a function from the prompt to the result of this one call.
\<close>

datatype error = UpstreamError

type_synonym llm = "message list \<Rightarrow> error + string"

text \<open>
  A handler ends in one of three ways: the script goes on (\<open>Continue\<close>),
  \<^verbatim>\<open>st.rerun()\<close> restarts it (\<open>Rerun\<close>), or an exception leaves it (\<open>Raised\<close>). Each
  carries the state as it is at that point: what was committed before an exception stays.
\<close>

datatype outcome = Continue world | Rerun world | Raised error world

fun world_of :: "outcome \<Rightarrow> world" where
  "world_of (Continue w) = w"
| "world_of (Rerun w) = w"
| "world_of (Raised e w) = w"

fun raised :: "outcome \<Rightarrow> bool" where
  "raised (Raised e w) = True"
| "raised (Continue w) = False"
| "raised (Rerun w) = False"

text \<open>
  \<^verbatim>\<open>chat.invoke({'prompt': user_input}, config)\<close> with
  \<^verbatim>\<open>chat = RunnableWithMessageHistory(chain, ..., input_messages_key="prompt",
  history_messages_key="history")\<close> and \<^verbatim>\<open>chain = chat_prompt | llm | out_parser\<close>:
  the messages of the session's history are bound to \<open>history\<close>, the prompt is built and
  sent; when the chain returns, the input is added to the history as a \<open>human\<close> message
  and the output as an \<open>ai\<close> message. When the chain raises, nothing is added.
\<close>

definition chat_invoke :: "llm \<Rightarrow> string \<Rightarrow> string \<Rightarrow> world \<Rightarrow> error \<times> world + string \<times> world" where
  "chat_invoke model sid prompt w =
     (let p = chat_prompt (history_messages (lc_store w) sid) prompt;
          w1 = w\<lparr>sent := sent w @ [p]\<rparr>
      in case model p of
           Inl e \<Rightarrow> Inl (e, w1)
         | Inr response \<Rightarrow>
             Inr (response,
                  w1\<lparr>lc_store := add_messages sid [(''human'', prompt), (''ai'', response)] (lc_store w1)\<rparr>))"

section \<open>The handlers\<close>

text \<open>
  The clock readings of one submission: \<^verbatim>\<open>CURRENT_TIMESTAMP\<close> at the two inserts and
  \<^verbatim>\<open>time.strftime('%Y-%m-%d %H:%M:%S')\<close> at the two appends to the message list.
\<close>

record clock =
  db_user :: string
  ui_user :: string
  db_assistant :: string
  ui_assistant :: string

text \<open>
  Lines 196-205. \<^verbatim>\<open>if submit_button and user_input:\<close> is Python truth: the button was
  pressed and the text is not the empty string.
\<close>

definition submit_handler :: "llm \<Rightarrow> clock \<Rightarrow> bool \<Rightarrow> string \<Rightarrow> world \<Rightarrow> outcome" where
  "submit_handler model clk submit_button user_input w =
     (if submit_button \<and> user_input \<noteq> [] then
        let sid = ss_session_id w;
            w1 = w\<lparr>chat_tbl := save_message (db_user clk) sid ''user'' user_input (chat_tbl w)\<rparr>;
            w2 = w1\<lparr>ss_messages := ss_messages w1 @ [(''user'', user_input, ui_user clk)]\<rparr>
        in case chat_invoke model sid user_input w2 of
             Inl (e, w3) \<Rightarrow> Raised e w3
           | Inr (response, w3) \<Rightarrow>
               let w4 = w3\<lparr>chat_tbl := save_message (db_assistant clk) sid ''assistant'' response (chat_tbl w3)\<rparr>;
                   w5 = w4\<lparr>ss_messages := ss_messages w4 @ [(''assistant'', response, ui_assistant clk)]\<rparr>
               in Rerun w5
      else Continue w)"

text \<open>
  Lines 103-106, the New Chat button. \<open>uuid\<close> is the text \<^verbatim>\<open>str(uuid.uuid4())\<close> yields,
  a random value and so an input of the model.
\<close>

definition new_chat :: "string \<Rightarrow> bool \<Rightarrow> world \<Rightarrow> outcome" where
  "new_chat uuid button w =
     (if button then Rerun (w\<lparr>ss_session_id := uuid, ss_messages := []\<rparr>) else Continue w)"








section \<open>What a run displays\<close>

text \<open>
  Lines 170-185. Each entry of \<^verbatim>\<open>st.session_state.messages\<close> becomes one
  \<^verbatim>\<open>st.chat_message(role)\<close> block: the content, cut at the code fences when it has one
  (even parts as markdown, odd parts in a \<open>code-block\<close> div), then the timestamp div.
  Nothing else is drawn from the state of an earlier run.
\<close>

datatype element = Markdown string | Html string

definition fence :: string where
  "fence = [CHR 0x60, CHR 0x60, CHR 0x60]"

fun has_fence :: "string \<Rightarrow> bool" where
  "has_fence [] = False"
| "has_fence (c # cs) = (take 3 (c # cs) = fence \<or> has_fence cs)"

fun split_fence :: "string \<Rightarrow> string list" where
  "split_fence [] = [[]]"
| "split_fence (c # cs) =
     (if take 3 (c # cs) = fence then [] # split_fence (drop 2 cs)
      else case split_fence cs of
             [] \<Rightarrow> [[c]]
           | part # parts \<Rightarrow> (c # part) # parts)"

fun render_parts :: "nat \<Rightarrow> string list \<Rightarrow> element list" where
  "render_parts i [] = []"
| "render_parts i (part # parts) =
     (if i mod 2 = 0 then Markdown part
      else Html (''<div class='' @ [CHR 0x22] @ ''code-block'' @ [CHR 0x22] @ ''>'' @ part @ ''</div>''))
     # render_parts (Suc i) parts"

definition render_turn :: "turn \<Rightarrow> string \<times> element list" where
  "render_turn row =
     (turn_role row,
      (if has_fence (turn_content row) then render_parts 0 (split_fence (turn_content row))
       else [Markdown (turn_content row)])
      @ [Html (''<div class='' @ [CHR 0x22] @ ''timestamp'' @ [CHR 0x22] @ ''>'' @ turn_timestamp row @ ''</div>'')])"

definition display :: "world \<Rightarrow> (string \<times> element list) list" where
  "display w = map render_turn (ss_messages w)"

section \<open>Sequences of user actions\<close>

text \<open>One user action starts one run of the script; the buttons are exclusive.\<close>

datatype event =
    New_Chat string
  | Export_Chat
  | Submit llm clock string

fun handle :: "event \<Rightarrow> world \<Rightarrow> outcome" where
  "handle (New_Chat uuid) w = new_chat uuid True w"
| "handle Export_Chat w = Continue w"
| "handle (Submit model clk user_input) w = submit_handler model clk True user_input w"

fun run :: "event list \<Rightarrow> world \<Rightarrow> world" where
  "run [] w = w"
| "run (ev # evs) w = run evs (world_of (handle ev w))"

fun completed :: "event list \<Rightarrow> world \<Rightarrow> bool" where
  "completed [] w = True"
| "completed (ev # evs) w = (\<not> raised (handle ev w) \<and> completed evs (world_of (handle ev w)))"

text \<open>A first visit: an empty database file and a fresh session.\<close>

definition initial :: "string \<Rightarrow> world" where
  "initial uuid = \<lparr>chat_tbl = [], lc_store = [], sent = [], ss_session_id = uuid, ss_messages = []\<rparr>"

text \<open>The claim that the prompt's history is \<open>load\<close> with the timestamp dropped uses:\<close>

definition drop_timestamp :: "turn \<Rightarrow> message" where
  "drop_timestamp row = (turn_role row, turn_content row)"

text \<open>The chain's history names the two roles \<open>human\<close> and \<open>ai\<close>.\<close>

definition as_message :: "turn \<Rightarrow> message" where
  "as_message row =
     ((if turn_role row = ''user'' then ''human''
       else if turn_role row = ''assistant'' then ''ai'' else turn_role row),
      turn_content row)"

section \<open>Concrete inputs\<close>

text \<open>Endpoints, clock readings, tables and a state, used to evaluate the model.\<close>

definition always_fails :: llm where
  "always_fails p = Inl UpstreamError"

definition answers :: "string \<Rightarrow> llm" where
  "answers text p = Inr text"

definition clk0 :: clock where
  "clk0 = \<lparr>db_user = ''2024-01-01 10:00:00'', ui_user = ''2024-01-01 12:00:00'',
           db_assistant = ''2024-01-01 10:00:02'', ui_assistant = ''2024-01-01 12:00:02''\<rparr>"

definition tbl0 :: chat_table where
  "tbl0 = save_all ''s1''
     [(''user'', ''Hi'', ''2024-01-01 00:00:00''), (''assistant'', ''Hello'', ''2024-01-01 00:00:01'')] []"

definition tbl_tie :: chat_table where
  "tbl_tie = save_all ''s1''
     [(''user'', ''a'', ''2024-01-01 00:00:00''), (''assistant'', ''b'', ''2024-01-01 00:00:00'')] []"

definition w_fail :: world where
  "w_fail = world_of (submit_handler always_fails clk0 True ''Hi'' (initial ''s1''))"



text \<open>
  The relation between the two stores that holds as long as every completion returns:
  the chain's history of a session is the session's rows of the \<open>chat\<close> table in insertion
  order, as messages.
\<close>

definition mirrors :: "world \<Rightarrow> bool" where
  "mirrors w \<longleftrightarrow>
     (\<forall>sid. history_messages (lc_store w) sid = map as_message (session_turns (chat_tbl w) sid))"

section \<open>The chat table: helper lemmas\<close>

lemmas turn_defs = turn_role_def turn_content_def turn_timestamp_def

lemmas handler_defs = submit_handler_def chat_invoke_def save_message_def next_id_def
  add_messages_def history_messages_def initial_def

lemma turn_parts: "(turn_role call, turn_content call, turn_timestamp call) = call"
  by (simp add: turn_defs)

lemma next_id_save_message: "next_id (save_message now sid r c tbl) = Suc (next_id tbl)"
  by (simp add: next_id_def save_message_def)

lemma session_turns_save_message:
  "session_turns (save_message now sid' r c tbl) sid =
     session_turns tbl sid @ (if sid' = sid then [(r, c, now)] else [])"
  by (simp add: save_message_def session_turns_def)

lemma session_turns_save_all:
  "session_turns (save_all sid calls tbl) sid = session_turns tbl sid @ calls"
  unfolding save_all_def
  by (induction calls arbitrary: tbl) (simp_all add: session_turns_save_message turn_parts)

lemma session_turns_empty:
  "(\<forall>r \<in> set tbl. session_id r \<noteq> sid) \<Longrightarrow> session_turns tbl sid = []"
  by (induction tbl) (auto simp: session_turns_def)


text \<open>Two lists with the same elements, both ascending in a key that never repeats, are equal.\<close>

lemma ascending_unique:
  assumes "mset xs = mset ys" and "sorted (map f xs)" and "sorted (map f ys)"
      and "distinct (map f ys)"
  shows "xs = ys"
proof -
  from assms(1) have "mset (map f xs) = mset (map f ys)" by simp
  with assms(4) have dx: "distinct (map f xs)"
    using mset_eq_imp_distinct_iff by blast
  from assms(1) have st: "set xs = set ys" by (rule mset_eq_setD)
  from assms(4) have "inj_on f (set ys)" by (simp add: distinct_map)
  with st have "inj_on f (set xs \<union> set ys)" by simp
  then show ?thesis
    using assms(2) dx assms(3) assms(4) st by (rule map_sorted_distinct_set_unique)
qed



text \<open>The list the program gets is one the query text allows.\<close>

lemma insort_key_map:
  "insort_key f (g x) (map g xs) = map g (insort_key (\<lambda>r. f (g r)) x xs)"
  by (induction xs) simp_all

lemma sort_key_map: "sort_key f (map g xs) = map g (sort_key (\<lambda>r. f (g r)) xs)"
  by (induction xs) (simp_all add: insort_key_map)

lemma fetchall_turns: "fetchall tbl sid = sort_key turn_timestamp (session_turns tbl sid)"
  by (simp add: fetchall_def session_turns_def sort_key_map turn_timestamp_def)

lemma load_fetchall: "load_chat_history tbl sid (fetchall tbl sid)"
  by (simp add: fetchall_turns load_chat_history_def)


lemma fetchall_stable:
  "filter (\<lambda>row. turn_timestamp row = ts) (fetchall tbl sid) =
   filter (\<lambda>row. turn_timestamp row = ts) (session_turns tbl sid)"
  by (simp add: fetchall_turns sort_key_stable)

text \<open>
  Sorting by a first key and keeping the order read, on rows read in ascending second
  key, is sorting by the pair of keys.
\<close>

lemma insort_key_lex:
  assumes "sorted (map (\<lambda>r. (f r, g r)) ys)" and "\<forall>y \<in> set ys. g x < g y"
  shows "sorted (map (\<lambda>r. (f r, g r)) (insort_key f x ys))"
  using assms
proof (induction ys)
  case Nil
  then show ?case by simp
next
  case (Cons y ys)
  show ?case
  proof (cases "f x \<le> f y")
    case True
    have "(f x, g x) \<le> (f y, g y)" using True Cons.prems(2) by (auto simp: less_eq_prod_def)
    moreover have "\<forall>z \<in> set ys. (f y, g y) \<le> (f z, g z)" using Cons.prems(1) by simp
    ultimately have "\<forall>z \<in> set (y # ys). (f x, g x) \<le> (f z, g z)"
      by (auto intro: order_trans)
    with True Cons.prems(1) show ?thesis by simp
  next
    case False
    then have "(f y, g y) \<le> (f x, g x)" by (auto simp: less_eq_prod_def)
    moreover have "sorted (map (\<lambda>r. (f r, g r)) (insort_key f x ys))"
      using Cons by simp
    ultimately show ?thesis using False Cons.prems(1) by (auto simp: set_insort_key)
  qed
qed

lemma sort_key_lex:
  "sorted_wrt (<) (map g xs) \<Longrightarrow> sorted (map (\<lambda>r. (f r, g r)) (sort_key f xs))"
proof (induction xs)
  case Nil
  then show ?case by simp
next
  case (Cons x xs)
  then have "sorted (map (\<lambda>r. (f r, g r)) (sort_key f xs))"
    and "\<forall>y \<in> set (sort_key f xs). g x < g y"
    by simp_all
  then show ?case by (simp add: insort_key_lex)
qed

lemma stable_sort_is_lex:
  assumes "sorted_wrt (<) (map g xs)"
  shows "sort_key f xs = sort_key (\<lambda>r. (f r, g r)) xs"
proof -
  have "distinct (map g xs)" using assms by (simp add: strict_sorted_iff)
  then have "distinct (map (\<lambda>r. (f r, g r)) xs)"
    by (induction xs) auto
  moreover have "mset (map (\<lambda>r. (f r, g r)) (sort_key (\<lambda>r. (f r, g r)) xs)) =
      mset (map (\<lambda>r. (f r, g r)) xs)"
    by simp
  ultimately have d: "distinct (map (\<lambda>r. (f r, g r)) (sort_key (\<lambda>r. (f r, g r)) xs))"
    using mset_eq_imp_distinct_iff by blast
  have "mset (sort_key f xs) = mset (sort_key (\<lambda>r. (f r, g r)) xs)" by simp
  moreover have "sorted (map (\<lambda>r. (f r, g r)) (sort_key f xs))"
    using assms by (rule sort_key_lex)
  moreover have "sorted (map (\<lambda>r. (f r, g r)) (sort_key (\<lambda>r. (f r, g r)) xs))" by simp
  ultimately show ?thesis using d by (rule ascending_unique)
qed

lemma fetchall_by_timestamp_then_id:
  assumes "sorted_wrt (<) (map row_id tbl)"
  shows "fetchall tbl sid = by_timestamp_then_id tbl sid"
proof -
  have "sorted_wrt (<) (map row_id (filter (\<lambda>r. session_id r = sid) tbl))"
    using assms by (simp add: sorted_wrt_map sorted_wrt_filter)
  then have "sort_key timestamp (filter (\<lambda>r. session_id r = sid) tbl) =
      sort_key (\<lambda>r. (timestamp r, row_id r)) (filter (\<lambda>r. session_id r = sid) tbl)"
    by (rule stable_sort_is_lex)
  then show ?thesis
    by (simp add: fetchall_def by_timestamp_then_id_def)
qed

text \<open>\<open>save_message\<close> keeps the table in ascending rowid.\<close>

lemma row_id_less_next_id: "r \<in> set tbl \<Longrightarrow> row_id r < next_id tbl"
proof -
  assume "r \<in> set tbl"
  then have "row_id r \<in> set (0 # map row_id tbl)" by simp
  then have "row_id r \<le> Max (set (0 # map row_id tbl))" by (intro Max_ge) simp_all
  moreover have "Max (set (0 # map row_id tbl)) = fold max (map row_id tbl) 0"
    by (rule Max.set_eq_fold)
  ultimately show ?thesis by (simp add: next_id_def)
qed

lemma rowid_order_save_message:
  "sorted_wrt (<) (map row_id tbl) \<Longrightarrow> sorted_wrt (<) (map row_id (save_message now sid r c tbl))"
  by (auto simp: save_message_def sorted_wrt_append row_id_less_next_id)

lemma tbl_tie_rows:
  "tbl_tie = [\<lparr>row_id = 1, session_id = ''s1'', role = ''user'', content = ''a'',
                timestamp = ''2024-01-01 00:00:00''\<rparr>,
              \<lparr>row_id = 2, session_id = ''s1'', role = ''assistant'', content = ''b'',
                timestamp = ''2024-01-01 00:00:00''\<rparr>]"
  by (simp add: tbl_tie_def save_all_def save_message_def next_id_def turn_defs)

lemma tbl0_rows:
  "tbl0 = [\<lparr>row_id = 1, session_id = ''s1'', role = ''user'', content = ''Hi'',
             timestamp = ''2024-01-01 00:00:00''\<rparr>,
           \<lparr>row_id = 2, session_id = ''s1'', role = ''assistant'', content = ''Hello'',
             timestamp = ''2024-01-01 00:00:01''\<rparr>]"
  by (simp add: tbl0_def save_all_def save_message_def next_id_def turn_defs)

section \<open>The handlers: helper lemmas\<close>

lemma submit_success:
  assumes "user_input \<noteq> []"
      and "model (chat_prompt (history_messages (lc_store w) (ss_session_id w)) user_input) = Inr response"
  shows "submit_handler model clk True user_input w =
     Rerun (w\<lparr>chat_tbl := save_message (db_assistant clk) (ss_session_id w) ''assistant'' response
                            (save_message (db_user clk) (ss_session_id w) ''user'' user_input (chat_tbl w)),
              ss_messages := ss_messages w @
                [(''user'', user_input, ui_user clk), (''assistant'', response, ui_assistant clk)],
              sent := sent w @ [chat_prompt (history_messages (lc_store w) (ss_session_id w)) user_input],
              lc_store := add_messages (ss_session_id w) [(''human'', user_input), (''ai'', response)]
                            (lc_store w)\<rparr>)"
  using assms by (simp add: submit_handler_def chat_invoke_def Let_def)

lemma submit_failure:
  assumes "user_input \<noteq> []"
      and "model (chat_prompt (history_messages (lc_store w) (ss_session_id w)) user_input) = Inl e"
  shows "submit_handler model clk True user_input w =
     Raised e (w\<lparr>chat_tbl := save_message (db_user clk) (ss_session_id w) ''user'' user_input (chat_tbl w),
              ss_messages := ss_messages w @ [(''user'', user_input, ui_user clk)],
              sent := sent w @ [chat_prompt (history_messages (lc_store w) (ss_session_id w)) user_input]\<rparr>)"
  using assms by (simp add: submit_handler_def chat_invoke_def Let_def)

lemma submit_sent:
  "user_input \<noteq> [] \<Longrightarrow>
   sent (world_of (submit_handler model clk True user_input w)) =
     sent w @ [chat_prompt (history_messages (lc_store w) (ss_session_id w)) user_input]"
  by (cases "model (chat_prompt (history_messages (lc_store w) (ss_session_id w)) user_input)")
     (simp_all add: submit_handler_def chat_invoke_def Let_def)

text \<open>Every handler only appends to the table, and only rows of the two roles.\<close>

lemma submit_appends:
  "\<exists>new. chat_tbl (world_of (submit_handler model clk b user_input w)) = chat_tbl w @ new
      \<and> set (map role new) \<subseteq> {''user'', ''assistant''}"
proof (cases "b \<and> user_input \<noteq> []")
  case False
  then have "submit_handler model clk b user_input w = Continue w"
    by (auto simp: submit_handler_def)
  then show ?thesis by simp
next
  case True
  then have b: "b" and u: "user_input \<noteq> []" by simp_all
  show ?thesis
  proof (cases "model (chat_prompt (history_messages (lc_store w) (ss_session_id w)) user_input)")
    case (Inl e)
    show ?thesis
      using submit_failure[where model=model and w=w and clk=clk, OF u Inl] b
      by (simp add: save_message_def)
  next
    case (Inr response)
    show ?thesis
      using submit_success[where model=model and w=w and clk=clk, OF u Inr] b
      by (simp add: save_message_def)
  qed
qed

lemma handle_appends:
  "\<exists>new. chat_tbl (world_of (handle ev w)) = chat_tbl w @ new
      \<and> set (map role new) \<subseteq> {''user'', ''assistant''}"
proof (cases ev)
  case (New_Chat uuid)
  then show ?thesis by (simp add: new_chat_def)
next
  case Export_Chat
  then show ?thesis by simp
next
  case (Submit model clk user_input)
  then show ?thesis using submit_appends[of model clk True user_input w] by simp
qed

lemma run_appends:
  "\<exists>new. chat_tbl (run evs w) = chat_tbl w @ new \<and> set (map role new) \<subseteq> {''user'', ''assistant''}"
proof (induction evs arbitrary: w)
  case Nil
  then show ?case by simp
next
  case (Cons ev evs)
  obtain new1 where n1: "chat_tbl (world_of (handle ev w)) = chat_tbl w @ new1"
      "set (map role new1) \<subseteq> {''user'', ''assistant''}"
    using handle_appends by blast
  obtain new2 where n2:
      "chat_tbl (run evs (world_of (handle ev w))) = chat_tbl (world_of (handle ev w)) @ new2"
      "set (map role new2) \<subseteq> {''user'', ''assistant''}"
    using Cons.IH by blast
  have "chat_tbl (run (ev # evs) w) = chat_tbl w @ (new1 @ new2)"
    using n1 n2 by simp
  moreover have "set (map role (new1 @ new2)) \<subseteq> {''user'', ''assistant''}"
    using n1 n2 by simp
  ultimately show ?case by blast
qed

text \<open>The chain's history follows the table while completions return.\<close>

lemma history_messages_add:
  "history_messages (add_messages sid' msgs store) sid =
     history_messages store sid @ (if sid' = sid then msgs else [])"
  by (simp add: history_messages_def add_messages_def filter_map comp_def)

lemma mirrors_initial: "mirrors (initial uuid)"
  by (simp add: mirrors_def initial_def history_messages_def session_turns_def)

lemma mirrors_submit:
  assumes "mirrors w" and "\<not> raised (submit_handler model clk b user_input w)"
  shows "mirrors (world_of (submit_handler model clk b user_input w))"
proof (cases "b \<and> user_input \<noteq> []")
  case False
  then have "submit_handler model clk b user_input w = Continue w"
    by (auto simp: submit_handler_def)
  with assms(1) show ?thesis by simp
next
  case True
  then have b: "b" and u: "user_input \<noteq> []" by simp_all
  show ?thesis
  proof (cases "model (chat_prompt (history_messages (lc_store w) (ss_session_id w)) user_input)")
    case (Inl e)
    with assms(2) b show ?thesis
      using submit_failure[where model=model and w=w and clk=clk, OF u Inl] by simp
  next
    case (Inr response)
    show ?thesis
      using submit_success[where model=model and w=w and clk=clk, OF u Inr] b assms(1)
      by (simp add: mirrors_def session_turns_save_message history_messages_add as_message_def
            turn_defs)
  qed
qed

lemma mirrors_handle:
  assumes "mirrors w" and "\<not> raised (handle ev w)"
  shows "mirrors (world_of (handle ev w))"
proof (cases ev)
  case (New_Chat uuid)
  with assms(1) show ?thesis by (simp add: new_chat_def mirrors_def)
next
  case Export_Chat
  with assms(1) show ?thesis by simp
next
  case (Submit model clk user_input)
  with assms show ?thesis using mirrors_submit[of w model clk True user_input] by simp
qed

lemma mirrors_run:
  "mirrors w \<Longrightarrow> completed evs w \<Longrightarrow> mirrors (run evs w)"
  by (induction evs arbitrary: w) (simp_all add: mirrors_handle)

lemma w_fail_eq:
  "w_fail = \<lparr>chat_tbl = [\<lparr>row_id = 1, session_id = ''s1'', role = ''user'', content = ''Hi'',
                           timestamp = ''2024-01-01 10:00:00''\<rparr>],
             lc_store = [], sent = [chat_prompt [] ''Hi''], ss_session_id = ''s1'',
             ss_messages = [(''user'', ''Hi'', ''2024-01-01 12:00:00'')]\<rparr>"
  by (simp add: w_fail_def handler_defs always_fails_def clk0_def Let_def)

text \<open>What a submission does to the table and to the session identifier.\<close>

lemma submit_table:
  "chat_tbl (world_of (submit_handler model clk b user_input w)) = chat_tbl w
   \<or> (\<exists>response.
        chat_tbl (world_of (submit_handler model clk b user_input w)) =
          save_message (db_user clk) (ss_session_id w) ''user'' user_input (chat_tbl w)
      \<or> chat_tbl (world_of (submit_handler model clk b user_input w)) =
          save_message (db_assistant clk) (ss_session_id w) ''assistant'' response
            (save_message (db_user clk) (ss_session_id w) ''user'' user_input (chat_tbl w)))"
proof (cases "b \<and> user_input \<noteq> []")
  case False
  then have "submit_handler model clk b user_input w = Continue w"
    by (auto simp: submit_handler_def)
  then show ?thesis by simp
next
  case True
  then have b: "b" and u: "user_input \<noteq> []" by simp_all
  show ?thesis
  proof (cases "model (chat_prompt (history_messages (lc_store w) (ss_session_id w)) user_input)")
    case (Inl e)
    show ?thesis
      using submit_failure[where model=model and w=w and clk=clk, OF u Inl] b by simp
  next
    case (Inr response)
    show ?thesis
      using submit_success[where model=model and w=w and clk=clk, OF u Inr] b by auto
  qed
qed


text \<open>Every table the program builds lists its rows in ascending rowid.\<close>

lemma rowid_order_handle:
  assumes "sorted_wrt (<) (map row_id (chat_tbl w))"
  shows "sorted_wrt (<) (map row_id (chat_tbl (world_of (handle ev w))))"
proof (cases ev)
  case (New_Chat uuid)
  with assms show ?thesis by (simp add: new_chat_def)
next
  case Export_Chat
  with assms show ?thesis by simp
next
  case (Submit model clk user_input)
  show ?thesis
    using submit_table[of model clk True user_input w] assms Submit
    by (auto simp: rowid_order_save_message)
qed

lemma rowid_order_run:
  "sorted_wrt (<) (map row_id (chat_tbl w)) \<Longrightarrow>
   sorted_wrt (<) (map row_id (chat_tbl (run evs w)))"
  by (induction evs arbitrary: w) (simp_all add: rowid_order_handle)






section \<open>The claims\<close>

subsection \<open>C1: the history placed in the prompt\<close>

text \<open>
  Claim C1 says that the history handed to the prompt is \<open>load\<close> of the Message Store
  with the timestamp dropped. In the program the history comes from the chain's own
  message history instead. What holds: every submission that passes the guard sends
  exactly one prompt, built from the complete message list that history holds for the
  session, whatever the state; and after any sequence of user actions on a fresh database
  in which no completion raised, that list is, for every session, the session's rows of
  the \<open>chat\<close> table in insertion order, timestamp dropped, with \<open>user\<close> and \<open>assistant\<close>
  appearing as \<open>human\<close> and \<open>ai\<close>. Read when a submission starts, these are the turns
  before the one the submission is about to save.
\<close>

theorem prompt_history:
  "(user_input \<noteq> [] \<longrightarrow>
      sent (world_of (submit_handler model clk True user_input w)) =
        sent w @ [chat_prompt (history_messages (lc_store w) (ss_session_id w)) user_input])
   \<and> (completed evs (initial uuid) \<longrightarrow>
        history_messages (lc_store (run evs (initial uuid))) sid =
          map as_message (session_turns (chat_tbl (run evs (initial uuid))) sid))"
proof -
  have "mirrors (run evs (initial uuid))" if "completed evs (initial uuid)"
    using mirrors_initial that by (rule mirrors_run)
  then show ?thesis
    using submit_sent[of user_input model clk w] by (simp add: mirrors_def)
qed

text \<open>One completed exchange, then a second submission: its prompt carries the first exchange.\<close>

theorem prompt_history_witness:
  "sent (world_of (submit_handler (answers ''Fine'') clk0 True ''More''
           (run [Submit (answers ''Hello'') clk0 ''Hi''] (initial ''s1'')))) =
     [chat_prompt [] ''Hi'', chat_prompt [(''human'', ''Hi''), (''ai'', ''Hello'')] ''More'']
   \<and> history_messages (lc_store (run [Submit (answers ''Hello'') clk0 ''Hi''] (initial ''s1''))) ''s1'' =
     [(''human'', ''Hi''), (''ai'', ''Hello'')]"
  using prompt_history[where user_input="''More''" and model="answers ''Fine''" and clk=clk0
          and w="run [Submit (answers ''Hello'') clk0 ''Hi''] (initial ''s1'')"
          and evs="[Submit (answers ''Hello'') clk0 ''Hi'']" and uuid="''s1''" and sid="''s1''"]
  by (simp add: handler_defs answers_def clk0_def Let_def session_turns_def as_message_def turn_defs)

text \<open>
  The claim as stated fails once a completion has failed. The submission \<open>Hi\<close> on a fresh
  session whose completion raises leaves the user turn in the table and nothing in the
  chain's history. At the next submission \<open>load\<close> returns that turn, with the timestamp
  dropped \<open>(user, Hi)\<close>, while the history is empty: the prompt for \<open>More\<close> is the system
  entry and the new message only. Renaming the role does not mend it, so the condition
  that no completion raised cannot be left out.
\<close>

theorem prompt_history_counterexample:
  "w_fail = run [Submit always_fails clk0 ''Hi''] (initial ''s1'')
   \<and> \<not> completed [Submit always_fails clk0 ''Hi''] (initial ''s1'')
   \<and> fetchall (chat_tbl w_fail) ''s1'' = [(''user'', ''Hi'', ''2024-01-01 10:00:00'')]
   \<and> map drop_timestamp (fetchall (chat_tbl w_fail) ''s1'') = [(''user'', ''Hi'')]
   \<and> map as_message (fetchall (chat_tbl w_fail) ''s1'') = [(''human'', ''Hi'')]
   \<and> history_messages (lc_store w_fail) ''s1'' = []
   \<and> sent (world_of (submit_handler (answers ''Fine'') clk0 True ''More'' w_fail)) =
       [chat_prompt [] ''Hi'', chat_prompt [] ''More'']"
  by (simp add: w_fail_eq handler_defs always_fails_def answers_def clk0_def Let_def fetchall_def
        drop_timestamp_def as_message_def turn_defs)

subsection \<open>C2: a completion that fails\<close>

text \<open>
  Claim C2 asks that a failed completion leave no user turn without an assistant turn
  unless the failure is shown on redisplay, and that the caller observe the error. The
  program has no handler for the exception. What holds when the completion raises
  \<open>UpstreamError\<close> on a non-empty submission: the handler ends with that exception (no
  rerun, no assistant turn written or made up); the user turn is already in the table and
  in the message list, where it stays as the last entry; the chain's history is
  unchanged; and the next display is the old display followed by the user's turn alone.
\<close>

theorem failed_completion:
  assumes "user_input \<noteq> []"
      and "model (chat_prompt (history_messages (lc_store w) (ss_session_id w)) user_input) =
             Inl UpstreamError"
  shows "submit_handler model clk True user_input w =
           Raised UpstreamError (world_of (submit_handler model clk True user_input w))
       \<and> chat_tbl (world_of (submit_handler model clk True user_input w)) =
           chat_tbl w @ [\<lparr>row_id = next_id (chat_tbl w), session_id = ss_session_id w,
                          role = ''user'', content = user_input, timestamp = db_user clk\<rparr>]
       \<and> ss_messages (world_of (submit_handler model clk True user_input w)) =
           ss_messages w @ [(''user'', user_input, ui_user clk)]
       \<and> lc_store (world_of (submit_handler model clk True user_input w)) = lc_store w
       \<and> display (world_of (submit_handler model clk True user_input w)) =
           display w @ [render_turn (''user'', user_input, ui_user clk)]"
  using submit_failure[where model=model and w=w and clk=clk, OF assms]
  by (simp add: save_message_def display_def)

theorem failed_completion_witness:
  "submit_handler always_fails clk0 True ''Hi'' (initial ''s1'') =
     Raised UpstreamError
       \<lparr>chat_tbl = [\<lparr>row_id = 1, session_id = ''s1'', role = ''user'', content = ''Hi'',
                     timestamp = ''2024-01-01 10:00:00''\<rparr>],
        lc_store = [], sent = [chat_prompt [] ''Hi''], ss_session_id = ''s1'',
        ss_messages = [(''user'', ''Hi'', ''2024-01-01 12:00:00'')]\<rparr>"
  using failed_completion[of "''Hi''" always_fails "initial ''s1''" clk0]
  by (simp add: handler_defs always_fails_def clk0_def Let_def)

text \<open>
  The claim as stated fails. After the failed submission \<open>Hi\<close> on a fresh session the
  table holds the user turn and no assistant turn, and the page a later run displays is
  that turn's block and nothing else: no notice of the failure.
\<close>

theorem failed_completion_counterexample:
  "session_turns (chat_tbl (world_of (submit_handler always_fails clk0 True ''Hi'' (initial ''s1'')))) ''s1'' =
     [(''user'', ''Hi'', ''2024-01-01 10:00:00'')]
   \<and> display (world_of (submit_handler always_fails clk0 True ''Hi'' (initial ''s1''))) =
     [(''user'', [Markdown ''Hi'',
                 Html (''<div class='' @ [CHR 0x22] @ ''timestamp'' @ [CHR 0x22] @
                       ''>2024-01-01 12:00:00</div>'')])]"
  by (simp add: handler_defs always_fails_def clk0_def Let_def session_turns_def display_def
        render_turn_def turn_defs fence_def)

subsection \<open>C3: appending and loading back\<close>

text \<open>
  Claim C3 says that \<open>N\<close> appends to an empty session load back as \<open>N\<close> rows in append
  order. The query orders by the store-assigned timestamp, not by insertion. What holds
  for a session with no rows and any \<open>calls\<close>: \<open>load\<close> returns \<open>length calls\<close> rows,
  exactly the appended turns with role, content and timestamp unchanged, in ascending
  timestamp; and when the timestamps never decrease from one append to the next, it
  returns them in append order.
\<close>

theorem load_after_appends:
  assumes "\<forall>r \<in> set tbl. session_id r \<noteq> sid"
  shows "length (fetchall (save_all sid calls tbl) sid) = length calls
       \<and> mset (fetchall (save_all sid calls tbl) sid) = mset calls
       \<and> sorted (map turn_timestamp (fetchall (save_all sid calls tbl) sid))
       \<and> (sorted (map turn_timestamp calls) \<longrightarrow> fetchall (save_all sid calls tbl) sid = calls)"
proof -
  have st: "session_turns (save_all sid calls tbl) sid = calls"
    using assms by (simp add: session_turns_save_all session_turns_empty)
  then have f: "fetchall (save_all sid calls tbl) sid = sort_key turn_timestamp calls"
    by (simp add: fetchall_turns)
  then show ?thesis by (simp add: sort_key_id_if_sorted)
qed

text \<open>Three appends to a new session of a table that holds another one, two in one second.\<close>

theorem load_after_appends_witness:
  "fetchall (save_all ''s2''
       [(''user'', ''a'', ''2024-01-01 00:00:05''), (''assistant'', ''b'', ''2024-01-01 00:00:05''),
        (''user'', ''c'', ''2024-01-01 00:00:07'')] tbl0) ''s2'' =
     [(''user'', ''a'', ''2024-01-01 00:00:05''), (''assistant'', ''b'', ''2024-01-01 00:00:05''),
      (''user'', ''c'', ''2024-01-01 00:00:07'')]"
  using load_after_appends[of tbl0 "''s2''"
          "[(''user'', ''a'', ''2024-01-01 00:00:05''), (''assistant'', ''b'', ''2024-01-01 00:00:05''),
            (''user'', ''c'', ''2024-01-01 00:00:07'')]"]
  by (simp add: tbl0_rows turn_defs)

text \<open>
  The claim as stated fails when the clock reads one second less at the second append
  than at the first: \<open>load\<close> returns the second turn first.
\<close>

theorem load_after_appends_counterexample:
  "fetchall (save_all ''s1''
       [(''user'', ''a'', ''2024-01-01 00:00:01''), (''assistant'', ''b'', ''2024-01-01 00:00:00'')] []) ''s1'' =
     [(''assistant'', ''b'', ''2024-01-01 00:00:00''), (''user'', ''a'', ''2024-01-01 00:00:01'')]"
  by (simp add: fetchall_def save_all_def save_message_def turn_defs)

subsection \<open>C4: the shape of the prompt\<close>

text \<open>
  Claim C4: for every history, the empty one included, and every user message, the prompt
  is the fixed system instruction first, then the history in its order and unchanged,
  then the user message as the last, human, entry.
\<close>

theorem chat_prompt_shape:
  "chat_prompt history prompt = (''system'', system_instruction) # history @ [(''human'', prompt)]
   \<and> hd (chat_prompt history prompt) = (''system'', system_instruction)
   \<and> last (chat_prompt history prompt) = (''human'', prompt)
   \<and> butlast (tl (chat_prompt history prompt)) = history
   \<and> length (chat_prompt history prompt) = length history + 2
   \<and> chat_prompt [] prompt = [(''system'', system_instruction), (''human'', prompt)]"
  by (simp add: chat_prompt_def butlast_append)

subsection \<open>C5: the exported text\<close>



subsection \<open>C6: an empty submission\<close>

text \<open>
  Claim C6 says that an empty or whitespace-only submission appends nothing and calls
  nothing. The guard on line 196 tests the text for being non-empty only. What holds: a
  submission of the empty text leaves the whole state as it was, so no row is appended
  and no prompt is sent, however often it is repeated.
\<close>

theorem submit_empty_noop:
  "submit_handler model clk submit_button [] w = Continue w
   \<and> chat_tbl (world_of (submit_handler model clk submit_button [] w)) = chat_tbl w
   \<and> sent (world_of (submit_handler model clk submit_button [] w)) = sent w"
  by (simp add: submit_handler_def)

text \<open>
  The claim as stated fails on a text of one space: the handler saves it as a user turn,
  sends a prompt that ends in it, and saves the answer.
\<close>

theorem submit_whitespace_counterexample:
  "chat_tbl (world_of (submit_handler (answers ''Hello'') clk0 True '' '' (initial ''s1''))) =
     [\<lparr>row_id = 1, session_id = ''s1'', role = ''user'', content = '' '',
        timestamp = ''2024-01-01 10:00:00''\<rparr>,
      \<lparr>row_id = 2, session_id = ''s1'', role = ''assistant'', content = ''Hello'',
        timestamp = ''2024-01-01 10:00:02''\<rparr>]
   \<and> sent (world_of (submit_handler (answers ''Hello'') clk0 True '' '' (initial ''s1''))) =
     [[(''system'', system_instruction), (''human'', '' '')]]"
  by (simp add: handler_defs answers_def clk0_def chat_prompt_def Let_def)

subsection \<open>C7: the order of a loaded history\<close>

text \<open>
  Claim C7: for a table whose rows are listed in ascending id, as every table the program
  builds from an empty database is, \<open>load\<close> returns the session's turns ordered by
  timestamp with ties broken by id. It holds exactly the session's turns, ascends in
  timestamp, and the turns that share a timestamp come in the order they were inserted.
  It is one of the lists the query text allows.
\<close>

theorem load_order:
  assumes "sorted_wrt (<) (map row_id tbl)"
  shows "fetchall tbl sid = by_timestamp_then_id tbl sid
       \<and> sorted (map turn_timestamp (fetchall tbl sid))
       \<and> mset (fetchall tbl sid) = mset (session_turns tbl sid)
       \<and> filter (\<lambda>row. turn_timestamp row = ts) (fetchall tbl sid) =
           filter (\<lambda>row. turn_timestamp row = ts) (session_turns tbl sid)
       \<and> load_chat_history tbl sid (fetchall tbl sid)
       \<and> sorted_wrt (<) (map row_id (chat_tbl (run evs (initial uuid))))"
proof -
  have "sorted_wrt (<) (map row_id (chat_tbl (initial uuid)))" by (simp add: initial_def)
  then have "sorted_wrt (<) (map row_id (chat_tbl (run evs (initial uuid))))"
    by (rule rowid_order_run)
  moreover have "sorted (map turn_timestamp (fetchall tbl sid))"
    and "mset (fetchall tbl sid) = mset (session_turns tbl sid)"
    using load_fetchall[of tbl sid] by (simp_all add: load_chat_history_def)
  ultimately show ?thesis
    using fetchall_by_timestamp_then_id[OF assms, of sid] fetchall_stable[of ts tbl sid]
          load_fetchall[of tbl sid]
    by simp
qed

text \<open>Two turns saved in the same second, ids 1 and 2: the turn of id 1 comes first.\<close>

theorem load_order_witness:
  "fetchall tbl_tie ''s1'' =
     [(''user'', ''a'', ''2024-01-01 00:00:00''), (''assistant'', ''b'', ''2024-01-01 00:00:00'')]
   \<and> by_timestamp_then_id tbl_tie ''s1'' =
     [(''user'', ''a'', ''2024-01-01 00:00:00''), (''assistant'', ''b'', ''2024-01-01 00:00:00'')]"
  using load_order[of tbl_tie "''s1''" "''2024-01-01 00:00:00''" "[]" "''s1''"]
  by (simp add: tbl_tie_rows by_timestamp_then_id_def)

subsection \<open>C8: New Chat\<close>



subsection \<open>C9: loading a session without turns\<close>

text \<open>
  Claim C9: when no row of the table carries the session identifier (no turn was
  appended to it, or it was never seen), \<open>load\<close> returns the empty list and nothing
  else; the model of \<open>load\<close> has no error result.
\<close>

theorem load_unknown_session:
  assumes "\<forall>r \<in> set tbl. session_id r \<noteq> sid"
  shows "load_chat_history tbl sid [] \<and> (load_chat_history tbl sid chat_data \<longleftrightarrow> chat_data = [])"
  using assms by (auto simp: load_chat_history_def session_turns_empty)

theorem load_unknown_session_witness:
  "load_chat_history tbl0 ''s2'' []
   \<and> \<not> load_chat_history tbl0 ''s2'' [(''user'', ''Hi'', ''2024-01-01 00:00:00'')]
   \<and> load_chat_history [] ''s1'' []"
  using load_unknown_session[of tbl0 "''s2''" "[(''user'', ''Hi'', ''2024-01-01 00:00:00'')]"]
        load_unknown_session[of "[]" "''s1''" "[]"]
  by (simp add: tbl0_rows)

subsection \<open>C10: what a successful submission writes\<close>

text \<open>
  Claim C10: a non-empty submission whose completion returns \<open>response\<close> ends in a rerun
  and appends exactly two rows to the table, both for the current session: first
  \<open>user\<close> with the submitted text, then \<open>assistant\<close> with \<open>response\<close>. And over any
  sequence of user actions the table only grows at its end, by rows whose role is
  \<open>user\<close> or \<open>assistant\<close>.
\<close>

theorem submit_writes_user_then_assistant:
  assumes "user_input \<noteq> []"
      and "model (chat_prompt (history_messages (lc_store w) (ss_session_id w)) user_input) = Inr response"
  shows "submit_handler model clk True user_input w =
           Rerun (world_of (submit_handler model clk True user_input w))
       \<and> chat_tbl (world_of (submit_handler model clk True user_input w)) =
           chat_tbl w @
           [\<lparr>row_id = next_id (chat_tbl w), session_id = ss_session_id w, role = ''user'',
              content = user_input, timestamp = db_user clk\<rparr>,
            \<lparr>row_id = Suc (next_id (chat_tbl w)), session_id = ss_session_id w, role = ''assistant'',
              content = response, timestamp = db_assistant clk\<rparr>]
       \<and> take (length (chat_tbl w)) (chat_tbl (run evs w)) = chat_tbl w
       \<and> set (map role (drop (length (chat_tbl w)) (chat_tbl (run evs w)))) \<subseteq> {''user'', ''assistant''}"
proof -
  obtain new where n: "chat_tbl (run evs w) = chat_tbl w @ new"
      "set (map role new) \<subseteq> {''user'', ''assistant''}"
    using run_appends by blast
  have "next_id (save_message (db_user clk) (ss_session_id w) ''user'' user_input (chat_tbl w)) =
          Suc (next_id (chat_tbl w))"
    by (rule next_id_save_message)
  then show ?thesis
    using submit_success[where model=model and w=w and clk=clk, OF assms] n
    by (simp add: save_message_def)
qed

theorem submit_writes_user_then_assistant_witness:
  "chat_tbl (world_of (submit_handler (answers ''Hello'') clk0 True ''Hi'' (initial ''s1''))) =
     [\<lparr>row_id = 1, session_id = ''s1'', role = ''user'', content = ''Hi'',
        timestamp = ''2024-01-01 10:00:00''\<rparr>,
      \<lparr>row_id = 2, session_id = ''s1'', role = ''assistant'', content = ''Hello'',
        timestamp = ''2024-01-01 10:00:02''\<rparr>]"
  using submit_writes_user_then_assistant[of "''Hi''" "answers ''Hello''" "initial ''s1''" "''Hello''" clk0 "[]"]
  by (simp add: answers_def initial_def clk0_def next_id_def)

end
